theory Spec2Isabelle
  imports Main "HOL-Library.Word"
begin

unbundle bit_operations_syntax

section \<open>Bytes, slices and panics\<close>

text \<open>
  A Go \<^verbatim>\<open>[]byte\<close> is a window on a backing array: it has a length and a capacity.
  \<open>arr\<close> holds the backing array from the first byte of the slice up to its capacity,
  \<open>blen\<close> is the slice's length (\<open>len(node)\<close>), so \<open>cap(node) = length (arr node)\<close>.
  Every slice has \<open>blen node \<le> length (arr node)\<close>.
  \<^verbatim>\<open>make([]byte, n)\<close>, here \<open>make_bytes n\<close>, gives length and capacity \<open>n\<close>.
  A run-time panic (a failed \<^verbatim>\<open>assert\<close>, an index out of range, \<^verbatim>\<open>panic("bad node!")\<close>)
  is the \<open>Inl\<close> of a sum.
\<close>

type_synonym byte = "8 word"
type_synonym u16 = "16 word"
type_synonym u64 = "64 word"

datatype fault = AssertionFailure | IndexOutOfRange | BadNode

record BNode =
  arr :: "byte list"
  blen :: nat

definition make_bytes :: "nat \<Rightarrow> BNode" where
  "make_bytes n = \<lparr>arr = replicate n 0, blen = n\<rparr>"

text \<open>\<^verbatim>\<open>BNode{}\<close>, and a \<^verbatim>\<open>nil\<close> slice.\<close>

definition BNode_empty :: BNode where
  "BNode_empty = \<lparr>arr = [], blen = 0\<rparr>"

definition BNODE_NODE :: u16 where "BNODE_NODE = 1"
definition BNODE_LEAF :: u16 where "BNODE_LEAF = 2"

definition BTREE_PAGE_SIZE :: nat where "BTREE_PAGE_SIZE = 4096"
definition BTREE_MAX_KEY_SIZE :: nat where "BTREE_MAX_KEY_SIZE = 1000"
definition BTREE_MAX_VAL_SIZE :: nat where "BTREE_MAX_VAL_SIZE = 3000"
definition HEADER :: u16 where "HEADER = 4"

text \<open>
  The constants are untyped in the source. Where one is compared with a \<^verbatim>\<open>uint16\<close>
  (\<^verbatim>\<open>left_bytes() > BTREE_PAGE_SIZE\<close>, \<^verbatim>\<open>updated.nbytes() > BTREE_PAGE_SIZE/4\<close>) the
  definitions below write its value, 4096 or 1024, as a 16-bit word.
\<close>

text \<open>\<^verbatim>\<open>assert(cond)\<close>: panics unless the condition holds.\<close>

definition assert :: "bool \<Rightarrow> fault + unit" where
  "assert cond = (if cond then Inr () else Inl AssertionFailure)"

subsection \<open>\<^verbatim>\<open>encoding/binary\<close>, little endian, and the slice expressions of the source\<close>

text \<open>\<^verbatim>\<open>uint16(b[0]) | uint16(b[1])<<8\<close>\<close>

definition le16 :: "byte \<Rightarrow> byte \<Rightarrow> u16" where
  "le16 b0 b1 = (ucast b0 :: u16) OR push_bit 8 (ucast b1 :: u16)"

text \<open>
  \<^verbatim>\<open>binary.LittleEndian.Uint16(node[pos:])\<close>: the slice expression panics when
  \<open>pos > len(node)\<close>, the read when fewer than two bytes are left.
\<close>

definition Uint16_from :: "BNode \<Rightarrow> nat \<Rightarrow> fault + u16" where
  "Uint16_from node pos =
     (if pos \<le> blen node \<and> 2 \<le> blen node - pos
      then Inr (le16 (arr node ! pos) (arr node ! (pos + 1)))
      else Inl IndexOutOfRange)"

text \<open>
  \<^verbatim>\<open>binary.LittleEndian.Uint16(node[lo:hi])\<close>: a slice expression with an explicit upper
  bound is checked against the capacity.
\<close>

definition Uint16_slice :: "BNode \<Rightarrow> nat \<Rightarrow> nat \<Rightarrow> fault + u16" where
  "Uint16_slice node lo hi =
     (if lo \<le> hi \<and> hi \<le> length (arr node) \<and> 2 \<le> hi - lo
      then Inr (le16 (arr node ! lo) (arr node ! (lo + 1)))
      else Inl IndexOutOfRange)"

text \<open>\<^verbatim>\<open>b[0] = byte(v); b[1] = byte(v >> 8)\<close> at position \<open>pos\<close> of the backing array.\<close>

definition put16 :: "byte list \<Rightarrow> nat \<Rightarrow> u16 \<Rightarrow> byte list" where
  "put16 bs pos v = bs[pos := ucast v, pos + 1 := ucast (drop_bit 8 v)]"

definition PutUint16_from :: "BNode \<Rightarrow> nat \<Rightarrow> u16 \<Rightarrow> fault + BNode" where
  "PutUint16_from node pos v =
     (if pos \<le> blen node \<and> 2 \<le> blen node - pos
      then Inr (node\<lparr>arr := put16 (arr node) pos v\<rparr>)
      else Inl IndexOutOfRange)"

definition PutUint16_slice :: "BNode \<Rightarrow> nat \<Rightarrow> nat \<Rightarrow> u16 \<Rightarrow> fault + BNode" where
  "PutUint16_slice node lo hi v =
     (if lo \<le> hi \<and> hi \<le> length (arr node) \<and> 2 \<le> hi - lo
      then Inr (node\<lparr>arr := put16 (arr node) lo v\<rparr>)
      else Inl IndexOutOfRange)"

text \<open>
  \<^verbatim>\<open>copy(node[pos:], src)\<close>: copies \<open>min(len(node) - pos, len(src))\<close> bytes and never
  panics by itself; only the slice expression can.
\<close>

definition copy_from :: "BNode \<Rightarrow> nat \<Rightarrow> byte list \<Rightarrow> fault + BNode" where
  "copy_from node pos src =
     (if pos \<le> blen node
      then (let n = min (blen node - pos) (length src)
            in Inr (node\<lparr>arr := take pos (arr node) @ take n src @ drop (pos + n) (arr node)\<rparr>))
      else Inl IndexOutOfRange)"

text \<open>
  \<^verbatim>\<open>node[pos:][:n]\<close>: the first slice expression is checked against the length, the
  second against the capacity that is left.
\<close>

definition bytes_from :: "BNode \<Rightarrow> nat \<Rightarrow> nat \<Rightarrow> fault + byte list" where
  "bytes_from node pos n =
     (if pos \<le> blen node \<and> n \<le> length (arr node) - pos
      then Inr (take n (drop pos (arr node)))
      else Inl IndexOutOfRange)"

section \<open>The page codec (\<^verbatim>\<open>internal/btree/bnode.go\<close>)\<close>

definition btype :: "BNode \<Rightarrow> fault + u16" where
  "btype node = Uint16_slice node 0 2"

definition nkeys :: "BNode \<Rightarrow> fault + u16" where
  "nkeys node = Uint16_slice node 2 4"

definition setHeader :: "BNode \<Rightarrow> u16 \<Rightarrow> u16 \<Rightarrow> fault + BNode" where
  "setHeader node bt nk =
     (case PutUint16_slice node 0 2 bt of
        Inl e \<Rightarrow> Inl e
      | Inr node1 \<Rightarrow> PutUint16_slice node1 2 4 nk)"

definition getPtr :: "BNode \<Rightarrow> u16 \<Rightarrow> fault + u16" where
  "getPtr node idx =
     (case nkeys node of
        Inl e \<Rightarrow> Inl e
      | Inr nk \<Rightarrow>
          (case assert (idx < nk) of
             Inl e \<Rightarrow> Inl e
           | Inr _ \<Rightarrow> Uint16_from node (unat (4 + 8 * idx))))"

definition setPtr :: "BNode \<Rightarrow> u16 \<Rightarrow> u16 \<Rightarrow> fault + BNode" where
  "setPtr node idx v =
     (case nkeys node of
        Inl e \<Rightarrow> Inl e
      | Inr nk \<Rightarrow>
          (case assert (idx < nk) of
             Inl e \<Rightarrow> Inl e
           | Inr _ \<Rightarrow> PutUint16_from node (unat (4 + 8 * idx)) v))"

definition getOffset :: "BNode \<Rightarrow> u16 \<Rightarrow> fault + u16" where
  "getOffset node idx =
     (if idx = 0 then Inr 0
      else (case nkeys node of
              Inl e \<Rightarrow> Inl e
            | Inr nk \<Rightarrow> Uint16_from node (unat (4 + 8 * nk + 2 * (idx - 1)))))"

text \<open>
  \<^verbatim>\<open>assert(1 <= idx && idx <= node.nkeys())\<close>: \<^verbatim>\<open>&&\<close> evaluates \<open>nkeys\<close> only when
  \<open>1 \<le> idx\<close>.
\<close>

definition offsetPos :: "BNode \<Rightarrow> u16 \<Rightarrow> fault + u16" where
  "offsetPos node idx =
     (if \<not> 1 \<le> idx then Inl AssertionFailure
      else (case nkeys node of
              Inl e \<Rightarrow> Inl e
            | Inr nk \<Rightarrow>
                (case assert (idx \<le> nk) of
                   Inl e \<Rightarrow> Inl e
                 | Inr _ \<Rightarrow> Inr (4 + 8 * nk + 2 * (idx - 1)))))"

definition setOffset :: "BNode \<Rightarrow> u16 \<Rightarrow> u16 \<Rightarrow> fault + BNode" where
  "setOffset node idx off =
     (case offsetPos node idx of
        Inl e \<Rightarrow> Inl e
      | Inr pos \<Rightarrow> PutUint16_from node (unat pos) off)"

definition kvPos :: "BNode \<Rightarrow> u16 \<Rightarrow> fault + u16" where
  "kvPos node idx =
     (case nkeys node of
        Inl e \<Rightarrow> Inl e
      | Inr nk \<Rightarrow>
          (case assert (idx \<le> nk) of
             Inl e \<Rightarrow> Inl e
           | Inr _ \<Rightarrow>
               (case getOffset node idx of
                  Inl e \<Rightarrow> Inl e
                | Inr off \<Rightarrow> Inr (4 + 8 * nk + 2 * nk + off))))"

definition getKey :: "BNode \<Rightarrow> u16 \<Rightarrow> fault + byte list" where
  "getKey node idx =
     (case nkeys node of
        Inl e \<Rightarrow> Inl e
      | Inr nk \<Rightarrow>
          (case assert (idx < nk) of
             Inl e \<Rightarrow> Inl e
           | Inr _ \<Rightarrow>
               (case kvPos node idx of
                  Inl e \<Rightarrow> Inl e
                | Inr pos \<Rightarrow>
                    (case Uint16_from node (unat pos) of
                       Inl e \<Rightarrow> Inl e
                     | Inr klen \<Rightarrow> bytes_from node (unat (pos + 4)) (unat klen)))))"

definition getValue :: "BNode \<Rightarrow> u16 \<Rightarrow> fault + byte list" where
  "getValue node idx =
     (case nkeys node of
        Inl e \<Rightarrow> Inl e
      | Inr nk \<Rightarrow>
          (case assert (idx < nk) of
             Inl e \<Rightarrow> Inl e
           | Inr _ \<Rightarrow>
               (case kvPos node idx of
                  Inl e \<Rightarrow> Inl e
                | Inr pos \<Rightarrow>
                    (case Uint16_from node (unat (pos + 0)) of
                       Inl e \<Rightarrow> Inl e
                     | Inr kLen \<Rightarrow>
                         (case Uint16_from node (unat (pos + 2)) of
                            Inl e \<Rightarrow> Inl e
                          | Inr vLen \<Rightarrow>
                              bytes_from node (unat (pos + 4 + kLen)) (unat vLen))))))"

text \<open>
  \<^verbatim>\<open>nodeAppendKV(new, idx, ptr, key, val)\<close>, statement by statement. Both size fields
  receive \<^verbatim>\<open>uint16(len(key))\<close>, and the last statement is
  \<^verbatim>\<open>new.setOffset(idx, new.getOffset(idx)+4+uint16((len(key)+len(val))))\<close>.
  The buffer is mutated in place in Go; the model returns the new contents. The
  source's parameter \<^verbatim>\<open>new\<close> is written \<open>nw\<close> throughout.
\<close>

definition nodeAppendKV :: "BNode \<Rightarrow> u16 \<Rightarrow> u16 \<Rightarrow> byte list \<Rightarrow> byte list \<Rightarrow> fault + BNode" where
  "nodeAppendKV nw idx ptr key val =
     (case setPtr nw idx ptr of
        Inl e \<Rightarrow> Inl e
      | Inr n1 \<Rightarrow>
     (case kvPos n1 idx of
        Inl e \<Rightarrow> Inl e
      | Inr pos \<Rightarrow>
     (case PutUint16_from n1 (unat (pos + 0)) (of_nat (length key)) of
        Inl e \<Rightarrow> Inl e
      | Inr n2 \<Rightarrow>
     (case PutUint16_from n2 (unat (pos + 2)) (of_nat (length key)) of
        Inl e \<Rightarrow> Inl e
      | Inr n3 \<Rightarrow>
     (case copy_from n3 (unat (pos + 4)) key of
        Inl e \<Rightarrow> Inl e
      | Inr n4 \<Rightarrow>
     (case copy_from n4 (unat (pos + 4 + of_nat (length key))) val of
        Inl e \<Rightarrow> Inl e
      | Inr n5 \<Rightarrow>
     (case getOffset n5 idx of
        Inl e \<Rightarrow> Inl e
      | Inr off \<Rightarrow>
          setOffset n5 idx (off + 4 + of_nat (length key + length val)))))))))"

definition nbytes :: "BNode \<Rightarrow> fault + u16" where
  "nbytes node =
     (case nkeys node of
        Inl e \<Rightarrow> Inl e
      | Inr nk \<Rightarrow> kvPos node nk)"


text \<open>
  \<^verbatim>\<open>nodeAppendRange\<close>: \<^verbatim>\<open>for i := uint16(0); i < n; i++\<close>. The arguments of the call
  are evaluated left to right (\<open>getPtr\<close>, \<open>getKey\<close>, \<open>getValue\<close>).
\<close>

function nodeAppendRange_loop ::
  "BNode \<Rightarrow> BNode \<Rightarrow> u16 \<Rightarrow> u16 \<Rightarrow> u16 \<Rightarrow> u16 \<Rightarrow> fault + BNode" where
  "nodeAppendRange_loop nw old dstNew srcOld n i =
     (if i < n then
        (case getPtr old (srcOld + i) of
           Inl e \<Rightarrow> Inl e
         | Inr p \<Rightarrow>
        (case getKey old (srcOld + i) of
           Inl e \<Rightarrow> Inl e
         | Inr k \<Rightarrow>
        (case getValue old (srcOld + i) of
           Inl e \<Rightarrow> Inl e
         | Inr v \<Rightarrow>
        (case nodeAppendKV nw (dstNew + i) p k v of
           Inl e \<Rightarrow> Inl e
         | Inr nw1 \<Rightarrow> nodeAppendRange_loop nw1 old dstNew srcOld n (i + 1)))))
      else Inr nw)"
  by pat_completeness auto
termination
proof (relation "measure (\<lambda>(nw, old, dstNew, srcOld, n, i). unat n - unat i)")
  show "wf (measure (\<lambda>(nw, old, dstNew, srcOld, n, i). unat n - unat i))"
    by simp
next
  fix nw old :: BNode and dstNew srcOld n i :: u16 and nw1 :: BNode
  assume "i < n"
  then have "unat n - unat (i + 1) < unat n - unat i"
    by unat_arith
  then show "((nw1, old, dstNew, srcOld, n, i + 1), (nw, old, dstNew, srcOld, n, i))
        \<in> measure (\<lambda>(nw, old, dstNew, srcOld, n, i). unat n - unat i)"
    by simp
qed

definition nodeAppendRange :: "BNode \<Rightarrow> BNode \<Rightarrow> u16 \<Rightarrow> u16 \<Rightarrow> u16 \<Rightarrow> fault + BNode" where
  "nodeAppendRange nw old dstNew srcOld n = nodeAppendRange_loop nw old dstNew srcOld n 0"

definition leafInsert :: "BNode \<Rightarrow> BNode \<Rightarrow> u16 \<Rightarrow> byte list \<Rightarrow> byte list \<Rightarrow> fault + BNode" where
  "leafInsert nw old idx key val =
     (case nkeys old of
        Inl e \<Rightarrow> Inl e
      | Inr nk \<Rightarrow>
     (case setHeader nw BNODE_LEAF (nk + 1) of
        Inl e \<Rightarrow> Inl e
      | Inr n1 \<Rightarrow>
     (case nodeAppendRange n1 old 0 0 idx of
        Inl e \<Rightarrow> Inl e
      | Inr n2 \<Rightarrow>
     (case nodeAppendKV n2 idx 0 key val of
        Inl e \<Rightarrow> Inl e
      | Inr n3 \<Rightarrow>
     (case nkeys old of
        Inl e \<Rightarrow> Inl e
      | Inr nk' \<Rightarrow> nodeAppendRange n3 old (idx + 1) idx (nk' - idx))))))"

definition leafUpdate :: "BNode \<Rightarrow> BNode \<Rightarrow> u16 \<Rightarrow> byte list \<Rightarrow> byte list \<Rightarrow> fault + BNode" where
  "leafUpdate nw old idx key val =
     (case nkeys old of
        Inl e \<Rightarrow> Inl e
      | Inr nk \<Rightarrow>
     (case setHeader nw BNODE_LEAF nk of
        Inl e \<Rightarrow> Inl e
      | Inr n1 \<Rightarrow>
     (case nodeAppendRange n1 old 0 0 idx of
        Inl e \<Rightarrow> Inl e
      | Inr n2 \<Rightarrow>
     (case nodeAppendKV n2 idx 0 key val of
        Inl e \<Rightarrow> Inl e
      | Inr n3 \<Rightarrow>
     (case nkeys old of
        Inl e \<Rightarrow> Inl e
      | Inr nk' \<Rightarrow> nodeAppendRange n3 old (idx + 1) (idx + 1) (nk' - (idx + 1)))))))"

text \<open>\<^verbatim>\<open>bytes.Compare\<close>: lexicographic on unsigned bytes, \<open>-1\<close>, \<open>0\<close> or \<open>1\<close>.\<close>

fun bytes_Compare :: "byte list \<Rightarrow> byte list \<Rightarrow> int" where
  "bytes_Compare [] [] = 0"
| "bytes_Compare [] (y # ys) = - 1"
| "bytes_Compare (x # xs) [] = 1"
| "bytes_Compare (x # xs) (y # ys) =
     (if x < y then - 1 else if y < x then 1 else bytes_Compare xs ys)"

text \<open>
  \<^verbatim>\<open>nodeLookupLE\<close>: \<^verbatim>\<open>for i = 0; i < nKeys; i++\<close>; \<open>i - 1\<close> is a \<^verbatim>\<open>uint16\<close> subtraction,
  so it wraps to 65535 at \<open>i = 0\<close>.
\<close>

function nodeLookupLE_loop :: "BNode \<Rightarrow> byte list \<Rightarrow> u16 \<Rightarrow> u16 \<Rightarrow> fault + u16" where
  "nodeLookupLE_loop node key nKeys i =
     (if i < nKeys then
        (case getKey node i of
           Inl e \<Rightarrow> Inl e
         | Inr k \<Rightarrow>
             (let cmp = bytes_Compare k key in
              if cmp = 0 then Inr i
              else if cmp > 0 then Inr (i - 1)
              else nodeLookupLE_loop node key nKeys (i + 1)))
      else Inr (i - 1))"
  by pat_completeness auto
termination
proof (relation "measure (\<lambda>(node, key, nKeys, i). unat nKeys - unat i)")
  show "wf (measure (\<lambda>(node, key, nKeys, i). unat nKeys - unat i))"
    by simp
next
  fix node :: BNode and key :: "byte list" and nKeys i :: u16
  assume "i < nKeys"
  then have "unat nKeys - unat (i + 1) < unat nKeys - unat i"
    by unat_arith
  then show "((node, key, nKeys, i + 1), (node, key, nKeys, i))
        \<in> measure (\<lambda>(node, key, nKeys, i). unat nKeys - unat i)"
    by simp
qed

definition nodeLookupLE :: "BNode \<Rightarrow> byte list \<Rightarrow> fault + u16" where
  "nodeLookupLE node key =
     (case nkeys node of
        Inl e \<Rightarrow> Inl e
      | Inr nKeys \<Rightarrow> nodeLookupLE_loop node key nKeys 0)"


subsection \<open>Splitting\<close>

text \<open>The closure \<^verbatim>\<open>left_bytes\<close> of \<^verbatim>\<open>nodeSplit2\<close>, at the current \<open>nleft\<close>.\<close>

definition left_bytes :: "BNode \<Rightarrow> u16 \<Rightarrow> fault + u16" where
  "left_bytes old nleft =
     (case getOffset old nleft of
        Inl e \<Rightarrow> Inl e
      | Inr off \<Rightarrow> Inr (4 + 8 * nleft + 2 * nleft + off))"

text \<open>The closure \<^verbatim>\<open>right_bytes\<close>: \<^verbatim>\<open>old.nbytes() - left_bytes() + 4\<close>.\<close>

definition right_bytes :: "BNode \<Rightarrow> u16 \<Rightarrow> fault + u16" where
  "right_bytes old nleft =
     (case nbytes old of
        Inl e \<Rightarrow> Inl e
      | Inr nb \<Rightarrow>
          (case left_bytes old nleft of
             Inl e \<Rightarrow> Inl e
           | Inr lb \<Rightarrow> Inr (nb - lb + 4)))"

text \<open>
  \<^verbatim>\<open>for left_bytes() > BTREE_PAGE_SIZE { nleft-- }\<close>. At \<open>nleft = 0\<close> the closure returns 4,
  so the loop never decrements past 0 and always ends.
\<close>

function shrink_left :: "BNode \<Rightarrow> u16 \<Rightarrow> fault + u16" where
  "shrink_left old nleft =
     (case left_bytes old nleft of
        Inl e \<Rightarrow> Inl e
      | Inr lb \<Rightarrow> if 4096 < lb then shrink_left old (nleft - 1) else Inr nleft)"
  by pat_completeness auto
termination
proof (relation "measure (\<lambda>(old, nleft). unat nleft)")
  show "wf (measure (\<lambda>(old, nleft). unat nleft))"
    by simp
next
  fix old :: BNode and nleft lb :: u16
  assume lb: "left_bytes old nleft = Inr lb" and big: "4096 < lb"
  have "nleft \<noteq> 0"
  proof
    assume "nleft = 0"
    with lb have "lb = 4" by (simp add: left_bytes_def getOffset_def)
    with big show False by simp
  qed
  then have "unat (nleft - 1) < unat nleft"
    by (rule measure_unat)
  then show "((old, nleft - 1), (old, nleft)) \<in> measure (\<lambda>(old, nleft). unat nleft)"
    by simp
qed

text \<open>
  \<^verbatim>\<open>for right_bytes() > BTREE_PAGE_SIZE { nleft++ }\<close>. Nothing bounds this loop in the
  source (\<open>nleft\<close> wraps around), so it is a partial function: \<open>None\<close> is a loop that
  never ends.
\<close>

partial_function (option) grow_left :: "BNode \<Rightarrow> u16 \<Rightarrow> (fault + u16) option" where
  "grow_left old nleft =
     (case right_bytes old nleft of
        Inl e \<Rightarrow> Some (Inl e)
      | Inr rb \<Rightarrow> if 4096 < rb then grow_left old (nleft + 1) else Some (Inr nleft))"

text \<open>
  \<^verbatim>\<open>nodeSplit2(left, right, old)\<close>: the statements after the second loop, from
  \<^verbatim>\<open>assert(nleft < old.nkeys())\<close> on. The result is the pair of the buffers
  \<open>left\<close> and \<open>right\<close> as the function leaves them.
\<close>

definition nodeSplit2_fill :: "BNode \<Rightarrow> BNode \<Rightarrow> BNode \<Rightarrow> u16 \<Rightarrow> fault + BNode \<times> BNode" where
  "nodeSplit2_fill left right old nleft =
     (case nkeys old of
        Inl e \<Rightarrow> Inl e
      | Inr nk \<Rightarrow>
     (case assert (nleft < nk) of
        Inl e \<Rightarrow> Inl e
      | Inr _ \<Rightarrow>
     (let nright = nk - nleft in
     (case btype old of
        Inl e \<Rightarrow> Inl e
      | Inr bt \<Rightarrow>
     (case setHeader left bt nleft of
        Inl e \<Rightarrow> Inl e
      | Inr l1 \<Rightarrow>
     (case setHeader right bt nright of
        Inl e \<Rightarrow> Inl e
      | Inr r1 \<Rightarrow>
     (case nodeAppendRange l1 old 0 0 nleft of
        Inl e \<Rightarrow> Inl e
      | Inr l2 \<Rightarrow>
     (case nodeAppendRange r1 old 0 nleft nright of
        Inl e \<Rightarrow> Inl e
      | Inr r2 \<Rightarrow>
     (case nbytes r2 of
        Inl e \<Rightarrow> Inl e
      | Inr rb \<Rightarrow>
     (case assert (rb \<le> 4096) of
        Inl e \<Rightarrow> Inl e
      | Inr _ \<Rightarrow> Inr (l2, r2)))))))))))"

definition nodeSplit2 :: "BNode \<Rightarrow> BNode \<Rightarrow> BNode \<Rightarrow> (fault + BNode \<times> BNode) option" where
  "nodeSplit2 left right old =
     (case nkeys old of
        Inl e \<Rightarrow> Some (Inl e)
      | Inr nk \<Rightarrow>
     (case assert (2 \<le> nk) of
        Inl e \<Rightarrow> Some (Inl e)
      | Inr _ \<Rightarrow>
     (case shrink_left old (nk div 2) of
        Inl e \<Rightarrow> Some (Inl e)
      | Inr nleft1 \<Rightarrow>
     (case assert (1 \<le> nleft1) of
        Inl e \<Rightarrow> Some (Inl e)
      | Inr _ \<Rightarrow>
     (case grow_left old nleft1 of
        None \<Rightarrow> None
      | Some (Inl e) \<Rightarrow> Some (Inl e)
      | Some (Inr nleft) \<Rightarrow> Some (nodeSplit2_fill left right old nleft))))))"

text \<open>\<^verbatim>\<open>node[:n]\<close>: checked against the capacity; the backing array is shared.\<close>

definition slice_to :: "BNode \<Rightarrow> nat \<Rightarrow> fault + BNode" where
  "slice_to node n =
     (if n \<le> length (arr node) then Inr (node\<lparr>blen := n\<rparr>) else Inl IndexOutOfRange)"

text \<open>
  \<^verbatim>\<open>nodeSplit3(old) (uint16, [3]BNode)\<close>: the array always has three entries, the unused
  ones \<^verbatim>\<open>nil\<close>.
\<close>

definition nodeSplit3 :: "BNode \<Rightarrow> (fault + u16 \<times> BNode list) option" where
  "nodeSplit3 old =
     (case nbytes old of
        Inl e \<Rightarrow> Some (Inl e)
      | Inr nb \<Rightarrow>
          if nb \<le> 4096 then
            (case slice_to old BTREE_PAGE_SIZE of
               Inl e \<Rightarrow> Some (Inl e)
             | Inr old1 \<Rightarrow> Some (Inr (1, [old1, BNode_empty, BNode_empty])))
          else
            (case nodeSplit2 (make_bytes (2 * BTREE_PAGE_SIZE)) (make_bytes BTREE_PAGE_SIZE) old of
               None \<Rightarrow> None
             | Some (Inl e) \<Rightarrow> Some (Inl e)
             | Some (Inr (left, right)) \<Rightarrow>
            (case nbytes left of
               Inl e \<Rightarrow> Some (Inl e)
             | Inr lb \<Rightarrow>
                 if lb \<le> 4096 then
                   (case slice_to left BTREE_PAGE_SIZE of
                      Inl e \<Rightarrow> Some (Inl e)
                    | Inr left1 \<Rightarrow> Some (Inr (2, [left1, right, BNode_empty])))
                 else
                   (case nodeSplit2 (make_bytes BTREE_PAGE_SIZE) (make_bytes BTREE_PAGE_SIZE) left of
                      None \<Rightarrow> None
                    | Some (Inl e) \<Rightarrow> Some (Inl e)
                    | Some (Inr (leftLeft, middle)) \<Rightarrow>
                   (case nbytes leftLeft of
                      Inl e \<Rightarrow> Some (Inl e)
                    | Inr llb \<Rightarrow>
                   (case assert (llb \<le> 4096) of
                      Inl e \<Rightarrow> Some (Inl e)
                    | Inr _ \<Rightarrow> Some (Inr (3, [leftLeft, middle, right]))))))))"

subsection \<open>The size limit\<close>

text \<open>The one error value the tree returns: \<^verbatim>\<open>fmt.Errorf("length of key or value too large!")\<close>.\<close>

datatype error = KeyOrValueTooLarge

definition checkLimit :: "byte list \<Rightarrow> byte list \<Rightarrow> error option" where
  "checkLimit key val =
     (if length key \<ge> BTREE_MAX_KEY_SIZE \<and> length val \<ge> BTREE_MAX_VAL_SIZE
      then Some KeyOrValueTooLarge else None)"


section \<open>The B-tree controller\<close>

text \<open>
  \<^verbatim>\<open>type BTree struct { root uint64; get func(uint64) []byte; new func([]byte) uint64;
  del func(uint64) }\<close>. The three callbacks belong to the caller; they act on a page
  store the tree never sees, the world \<open>'w\<close>, which the model threads through every
  call: \<open>get\<close> reads it, \<open>new\<close> and \<open>del\<close> return it changed. The source's
  parameter \<^verbatim>\<open>tree\<close> is written \<open>tr\<close>.
\<close>

record 'w BTree =
  root :: u64
  get :: "'w \<Rightarrow> u64 \<Rightarrow> BNode"
  new :: "'w \<Rightarrow> BNode \<Rightarrow> u64 \<times> 'w"
  del :: "'w \<Rightarrow> u64 \<Rightarrow> 'w"

text \<open>
  The loop of \<^verbatim>\<open>nodeReplaceKidN\<close>:
  \<^verbatim>\<open>for i, node := range kids { nodeAppendKV(new, idx+uint16(i), uint16(tree.new(node)), node.getKey(0), nil) }\<close>.
  The page ID the allocator returns is cut to 16 bits by the conversion.
\<close>

fun nodeReplaceKidN_kids ::
  "'w BTree \<Rightarrow> 'w \<Rightarrow> BNode \<Rightarrow> u16 \<Rightarrow> nat \<Rightarrow> BNode list \<Rightarrow> fault + BNode \<times> 'w" where
  "nodeReplaceKidN_kids tr w nw idx i [] = Inr (nw, w)"
| "nodeReplaceKidN_kids tr w nw idx i (node # rest) =
     (case new tr w node of
        (p, w1) \<Rightarrow>
     (case getKey node 0 of
        Inl e \<Rightarrow> Inl e
      | Inr k \<Rightarrow>
     (case nodeAppendKV nw (idx + of_nat i) (ucast p) k [] of
        Inl e \<Rightarrow> Inl e
      | Inr nw1 \<Rightarrow> nodeReplaceKidN_kids tr w1 nw1 idx (Suc i) rest)))"

definition nodeReplaceKidN ::
  "'w BTree \<Rightarrow> 'w \<Rightarrow> BNode \<Rightarrow> BNode \<Rightarrow> u16 \<Rightarrow> BNode list \<Rightarrow> fault + BNode \<times> 'w" where
  "nodeReplaceKidN tr w nw old idx kids =
     (let inc = (of_nat (length kids) :: u16) in
     (case nkeys old of
        Inl e \<Rightarrow> Inl e
      | Inr nk \<Rightarrow>
     (case setHeader nw BNODE_NODE (nk + inc - 1) of
        Inl e \<Rightarrow> Inl e
      | Inr n1 \<Rightarrow>
     (case nodeAppendRange n1 old 0 0 idx of
        Inl e \<Rightarrow> Inl e
      | Inr n2 \<Rightarrow>
     (case nodeReplaceKidN_kids tr w n2 idx 0 kids of
        Inl e \<Rightarrow> Inl e
      | Inr (n3, w1) \<Rightarrow>
     (case nkeys old of
        Inl e \<Rightarrow> Inl e
      | Inr nk' \<Rightarrow>
     (case nodeAppendRange n3 old (idx + inc) (idx + 1) (nk' - (idx + 1)) of
        Inl e \<Rightarrow> Inl e
      | Inr n4 \<Rightarrow> Inr (n4, w1))))))))"

text \<open>
  \<^verbatim>\<open>treeInsert\<close> recurses through the pages the store hands out; nothing bounds the
  depth (a store whose pages point at each other gives a recursion without end), so
  it is a partial function and \<open>None\<close> is a call that never returns.
\<close>

partial_function (option) treeInsert ::
  "'w BTree \<Rightarrow> 'w \<Rightarrow> BNode \<Rightarrow> byte list \<Rightarrow> byte list \<Rightarrow> (fault + BNode \<times> 'w) option" where
  "treeInsert tr w node key val =
     (case nodeLookupLE node key of
        Inl e \<Rightarrow> Some (Inl e)
      | Inr idx \<Rightarrow>
     (case btype node of
        Inl e \<Rightarrow> Some (Inl e)
      | Inr bt \<Rightarrow>
          if bt = BNODE_LEAF then
            (case getKey node idx of
               Inl e \<Rightarrow> Some (Inl e)
             | Inr k \<Rightarrow>
                 if key = k then
                   (case leafUpdate (make_bytes (2 * BTREE_PAGE_SIZE)) node idx key val of
                      Inl e \<Rightarrow> Some (Inl e)
                    | Inr nw \<Rightarrow> Some (Inr (nw, w)))
                 else
                   (case leafInsert (make_bytes (2 * BTREE_PAGE_SIZE)) node (idx + 1) key val of
                      Inl e \<Rightarrow> Some (Inl e)
                    | Inr nw \<Rightarrow> Some (Inr (nw, w))))
          else if bt = BNODE_NODE then
            (case getPtr node idx of
               Inl e \<Rightarrow> Some (Inl e)
             | Inr kptr \<Rightarrow>
                 Option.bind (treeInsert tr w (get tr w (ucast kptr)) key val)
                   (\<lambda>r. case r of
                      Inl e \<Rightarrow> Some (Inl e)
                    | Inr (knode, w1) \<Rightarrow>
                   (case nodeSplit3 knode of
                      None \<Rightarrow> None
                    | Some (Inl e) \<Rightarrow> Some (Inl e)
                    | Some (Inr (nsplit, split)) \<Rightarrow>
                        Some (nodeReplaceKidN tr (del tr w1 (ucast kptr))
                                (make_bytes (2 * BTREE_PAGE_SIZE)) node idx
                                (take (unat nsplit) split)))))
          else Some (Inl BadNode)))"

text \<open>
  The loop of \<^verbatim>\<open>Insert\<close> over the pieces of a split root:
  \<^verbatim>\<open>ptr, key := tree.new(knode), knode.getKey(0); nodeAppendKV(knode, uint16(i), uint16(ptr), key, nil)\<close>.
  It writes into \<open>knode\<close>, which nothing reads afterwards.
\<close>

fun Insert_kids :: "'w BTree \<Rightarrow> 'w \<Rightarrow> nat \<Rightarrow> BNode list \<Rightarrow> fault + 'w" where
  "Insert_kids tr w i [] = Inr w"
| "Insert_kids tr w i (knode # rest) =
     (case new tr w knode of
        (ptr, w1) \<Rightarrow>
     (case getKey knode 0 of
        Inl e \<Rightarrow> Inl e
      | Inr key \<Rightarrow>
     (case nodeAppendKV knode (of_nat i) (ucast ptr) key [] of
        Inl e \<Rightarrow> Inl e
      | Inr _ \<Rightarrow> Insert_kids tr w1 (Suc i) rest)))"

text \<open>\<^verbatim>\<open>Insert\<close> on a tree whose root is 0: the source's first branch.\<close>

definition Insert_empty ::
  "'w BTree \<Rightarrow> 'w \<Rightarrow> byte list \<Rightarrow> byte list \<Rightarrow> fault + error option \<times> 'w BTree \<times> 'w" where
  "Insert_empty tr w key val =
     (case setHeader (make_bytes BTREE_PAGE_SIZE) BNODE_LEAF 2 of
        Inl e \<Rightarrow> Inl e
      | Inr r1 \<Rightarrow>
     (case nodeAppendKV r1 0 0 [] [] of
        Inl e \<Rightarrow> Inl e
      | Inr r2 \<Rightarrow>
     (case nodeAppendKV r2 0 1 key val of
        Inl e \<Rightarrow> Inl e
      | Inr r3 \<Rightarrow>
     (case new tr w r3 of
        (p, w1) \<Rightarrow> Inr (None, tr\<lparr>root := p\<rparr>, w1)))))"

text \<open>
  \<^verbatim>\<open>Insert\<close> from \<^verbatim>\<open>nsplit, split := nodeSplit3(node)\<close> on, given the result of
  \<^verbatim>\<open>nodeSplit3\<close>.
\<close>

definition Insert_root ::
  "'w BTree \<Rightarrow> 'w \<Rightarrow> u16 \<Rightarrow> BNode list \<Rightarrow> fault + error option \<times> 'w BTree \<times> 'w" where
  "Insert_root tr w1 nsplit split =
     (let w2 = del tr w1 (root tr) in
      if nsplit > 1 then
        (case setHeader (make_bytes BTREE_PAGE_SIZE) BNODE_NODE nsplit of
           Inl e \<Rightarrow> Inl e
         | Inr r1 \<Rightarrow>
        (case Insert_kids tr w2 0 (take (unat nsplit) split) of
           Inl e \<Rightarrow> Inl e
         | Inr w3 \<Rightarrow>
        (case new tr w3 r1 of
           (p, w4) \<Rightarrow> Inr (None, tr\<lparr>root := p\<rparr>, w4))))
      else
        (case new tr w2 (hd split) of
           (p, w3) \<Rightarrow> Inr (None, tr\<lparr>root := p\<rparr>, w3)))"

text \<open>
  \<^verbatim>\<open>func (tree *BTree) Insert(key []byte, value []byte) error\<close>. The result is
  \<open>None\<close> when the call never returns, a \<open>fault\<close> when it panics, and otherwise the
  returned \<^verbatim>\<open>error\<close> (\<open>None\<close> for \<^verbatim>\<open>nil\<close>) with the tree and the world as the call
  leaves them.
\<close>

definition Insert ::
  "'w BTree \<Rightarrow> 'w \<Rightarrow> byte list \<Rightarrow> byte list \<Rightarrow> (fault + error option \<times> 'w BTree \<times> 'w) option" where
  "Insert tr w key val =
     (case checkLimit key val of
        Some err \<Rightarrow> Some (Inr (Some err, tr, w))
      | None \<Rightarrow>
          if root tr = 0 then Some (Insert_empty tr w key val)
          else
            (case treeInsert tr w (get tr w (root tr)) key val of
               None \<Rightarrow> None
             | Some (Inl e) \<Rightarrow> Some (Inl e)
             | Some (Inr (node, w1)) \<Rightarrow>
            (case nodeSplit3 node of
               None \<Rightarrow> None
             | Some (Inl e) \<Rightarrow> Some (Inl e)
             | Some (Inr (nsplit, split)) \<Rightarrow> Some (Insert_root tr w1 nsplit split))))"


subsection \<open>Deleting\<close>

text \<open>
  \<^verbatim>\<open>shouldMerge\<close>, the part after the left sibling was looked at:
  \<^verbatim>\<open>if idx+1 < node.nkeys() { sibling := ...; merged := sibling.btype() + updated.nbytes() - HEADER; ... }\<close>
  and the final \<^verbatim>\<open>return 0, BNode{}\<close>.
\<close>

definition shouldMerge_right ::
  "'w BTree \<Rightarrow> 'w \<Rightarrow> BNode \<Rightarrow> u16 \<Rightarrow> BNode \<Rightarrow> fault + int \<times> BNode" where
  "shouldMerge_right tr w node idx updated =
     (case nkeys node of
        Inl e \<Rightarrow> Inl e
      | Inr nk \<Rightarrow>
          if idx + 1 < nk then
            (case getPtr node (idx + 1) of
               Inl e \<Rightarrow> Inl e
             | Inr p \<Rightarrow>
            (let sibling = get tr w (ucast p) in
            (case btype sibling of
               Inl e \<Rightarrow> Inl e
             | Inr sb \<Rightarrow>
            (case nbytes updated of
               Inl e \<Rightarrow> Inl e
             | Inr ub \<Rightarrow>
                 if sb + ub - HEADER \<le> 4096 then Inr (1, sibling)
                 else Inr (0, BNode_empty)))))
          else Inr (0, BNode_empty))"

definition shouldMerge ::
  "'w BTree \<Rightarrow> 'w \<Rightarrow> BNode \<Rightarrow> u16 \<Rightarrow> BNode \<Rightarrow> fault + int \<times> BNode" where
  "shouldMerge tr w node idx updated =
     (case nbytes updated of
        Inl e \<Rightarrow> Inl e
      | Inr ub0 \<Rightarrow>
          if 1024 < ub0 then Inr (0, BNode_empty)
          else if 0 < idx then
            (case getPtr node (idx - 1) of
               Inl e \<Rightarrow> Inl e
             | Inr p \<Rightarrow>
            (let sibling = get tr w (ucast p) in
            (case nbytes sibling of
               Inl e \<Rightarrow> Inl e
             | Inr sb \<Rightarrow>
            (case nbytes updated of
               Inl e \<Rightarrow> Inl e
             | Inr ub \<Rightarrow>
                 if sb + ub - HEADER \<le> 4096 then Inr (- 1, sibling)
                 else shouldMerge_right tr w node idx updated))))
          else shouldMerge_right tr w node idx updated)"

text \<open>
  \<^verbatim>\<open>nodeDelete\<close>. The source declares \<^verbatim>\<open>treeDelete\<close>, \<^verbatim>\<open>nodeMerge\<close> and
  \<^verbatim>\<open>nodeReplace2Kid\<close> without a body, so they are parameters here: \<open>treeDelete\<close>
  returns the node and the world, the other two the buffer they fill. The
  \<^verbatim>\<open>switch\<close> has the guard \<^verbatim>\<open>mergeDir < 0\<close> twice; the cases are tried in order, and
  with none matching the fresh page \<open>nw\<close> is returned as it is.
\<close>

definition nodeDelete ::
  "('w BTree \<Rightarrow> 'w \<Rightarrow> BNode \<Rightarrow> byte list \<Rightarrow> fault + BNode \<times> 'w) \<Rightarrow>
   (BNode \<Rightarrow> BNode \<Rightarrow> BNode \<Rightarrow> fault + BNode) \<Rightarrow>
   (BNode \<Rightarrow> BNode \<Rightarrow> u16 \<Rightarrow> u64 \<Rightarrow> byte list \<Rightarrow> fault + BNode) \<Rightarrow>
   'w BTree \<Rightarrow> 'w \<Rightarrow> BNode \<Rightarrow> u16 \<Rightarrow> byte list \<Rightarrow> fault + BNode \<times> 'w" where
  "nodeDelete treeDelete nodeMerge nodeReplace2Kid tr w node idx key =
     (case getPtr node idx of
        Inl e \<Rightarrow> Inl e
      | Inr kptr \<Rightarrow>
     (case treeDelete tr w (get tr w (ucast idx)) key of
        Inl e \<Rightarrow> Inl e
      | Inr (updated, w1) \<Rightarrow>
          if blen updated = 0 then Inr (BNode_empty, w1)
          else
     (let w2 = del tr w1 (ucast kptr); nw = make_bytes BTREE_PAGE_SIZE in
     (case shouldMerge tr w2 node idx updated of
        Inl e \<Rightarrow> Inl e
      | Inr (mergeDir, sibling) \<Rightarrow>
          if mergeDir < 0 then
            (case nodeMerge (make_bytes BTREE_PAGE_SIZE) sibling updated of
               Inl e \<Rightarrow> Inl e
             | Inr merged \<Rightarrow>
            (case getPtr node (idx - 1) of
               Inl e \<Rightarrow> Inl e
             | Inr lp \<Rightarrow>
            (case new tr (del tr w2 (ucast lp)) merged of
               (mp, w3) \<Rightarrow>
            (case getKey merged 0 of
               Inl e \<Rightarrow> Inl e
             | Inr mk \<Rightarrow>
            (case nodeReplace2Kid nw node (idx - 1) mp mk of
               Inl e \<Rightarrow> Inl e
             | Inr nw1 \<Rightarrow> Inr (nw1, w3))))))
          else if mergeDir < 0 then
            (case nodeMerge (make_bytes BTREE_PAGE_SIZE) sibling updated of
               Inl e \<Rightarrow> Inl e
             | Inr merged \<Rightarrow>
            (case getPtr node (idx + 1) of
               Inl e \<Rightarrow> Inl e
             | Inr rp \<Rightarrow>
            (case new tr (del tr w2 (ucast rp)) merged of
               (mp, w3) \<Rightarrow>
            (case getKey merged 0 of
               Inl e \<Rightarrow> Inl e
             | Inr mk \<Rightarrow>
            (case nodeReplace2Kid nw node idx mp mk of
               Inl e \<Rightarrow> Inl e
             | Inr nw1 \<Rightarrow> Inr (nw1, w3))))))
          else if mergeDir = 0 then
            (case nkeys updated of
               Inl e \<Rightarrow> Inl e
             | Inr uk \<Rightarrow>
                 if uk = 0 then
                   (case nkeys node of
                      Inl e \<Rightarrow> Inl e
                    | Inr nk \<Rightarrow>
                   (case assert (nk = 1 \<and> idx = 0) of
                      Inl e \<Rightarrow> Inl e
                    | Inr _ \<Rightarrow>
                   (case setHeader nw BNODE_NODE 0 of
                      Inl e \<Rightarrow> Inl e
                    | Inr nw1 \<Rightarrow> Inr (nw1, w2))))
                 else nodeReplaceKidN tr w2 nw node idx [updated])
          else Inr (nw, w2)))))"

section \<open>The commit protocol and the key-value store (\<^verbatim>\<open>package io\<close>)\<close>

text \<open>
  \<^verbatim>\<open>type KV struct { Path string; fd int; tree BTree.BTree }\<close>.
\<close>

record 'w KV =
  Path :: string
  fd :: int
  tree :: "'w BTree"

text \<open>
  \<^verbatim>\<open>updateFile(db *KV) error\<close>. \<^verbatim>\<open>writePages\<close> and \<^verbatim>\<open>updateRoot\<close> are declared without
  a body and \<^verbatim>\<open>syscall.Fsync\<close> is the operating system's, so the three are
  parameters: each returns its \<^verbatim>\<open>error\<close> (\<open>None\<close> for \<^verbatim>\<open>nil\<close>, the errors a type
  \<open>'e\<close>) and the state it leaves, the first two the \<open>KV\<close> as well, which they
  receive by pointer.
\<close>

definition updateFile ::
  "('w KV \<Rightarrow> 'w \<Rightarrow> 'e option \<times> 'w KV \<times> 'w) \<Rightarrow>
   (int \<Rightarrow> 'w \<Rightarrow> 'e option \<times> 'w) \<Rightarrow>
   ('w KV \<Rightarrow> 'w \<Rightarrow> 'e option \<times> 'w KV \<times> 'w) \<Rightarrow>
   'w KV \<Rightarrow> 'w \<Rightarrow> 'e option \<times> 'w KV \<times> 'w" where
  "updateFile writePages Fsync updateRoot db w =
     (case writePages db w of
        (Some err, db1, w1) \<Rightarrow> (Some err, db1, w1)
      | (None, db1, w1) \<Rightarrow>
     (case Fsync (fd db1) w1 of
        (Some err, w2) \<Rightarrow> (Some err, db1, w2)
      | (None, w2) \<Rightarrow>
     (case updateRoot db1 w2 of
        (Some err, db2, w3) \<Rightarrow> (Some err, db2, w3)
      | (None, db2, w3) \<Rightarrow>
     (case Fsync (fd db2) w3 of
        (r, w4) \<Rightarrow> (r, db2, w4)))))"


declare grow_left.simps [code]
declare treeInsert.simps [code]
declare shrink_left.simps [simp del]
declare nodeAppendRange_loop.simps [simp del]
declare nodeLookupLE_loop.simps [simp del]

section \<open>Example pages, stores and system calls\<close>

text \<open>
  A leaf of four entries, each a one-byte key and a value of 1095 zero bytes (1100
  bytes an entry), in the 8192-byte buffer \<^verbatim>\<open>treeInsert\<close> builds its result in. Its
  encoded size is \<open>4 + 4 * 8 + 4 * 2 + 4400 = 4444\<close> bytes, more than a page.
\<close>

definition ex_entry :: "byte \<Rightarrow> byte list" where
  "ex_entry k = [1, 0, 71, 4, k] @ replicate 1095 0"

definition ex_big_leaf :: BNode where
  "ex_big_leaf =
     \<lparr>arr = [2, 0, 4, 0] @ replicate 32 0 @ [76, 4, 152, 8, 228, 12, 48, 17]
            @ ex_entry 97 @ ex_entry 98 @ ex_entry 99 @ ex_entry 100 @ replicate 3748 0,
      blen = 8192\<rparr>"

text \<open>
  An internal node of two keys (the empty sentinel and \<open>m\<close>) whose children are the
  pages 7 and 9; a leaf holding the one entry \<open>a \<mapsto> ()\<close>, 19 bytes; and a leaf whose
  one entry fills the page up to 4094 bytes (key \<open>z\<close>, 4075 value bytes).
\<close>

definition ex_parent :: BNode where
  "ex_parent =
     \<lparr>arr = [1, 0, 2, 0] @ [7, 0, 0, 0, 0, 0, 0, 0] @ [9, 0, 0, 0, 0, 0, 0, 0]
            @ [4, 0, 9, 0] @ [0, 0, 0, 0] @ [1, 0, 0, 0, 109] @ replicate 4063 0,
      blen = 4096\<rparr>"

definition ex_small_leaf :: BNode where
  "ex_small_leaf =
     \<lparr>arr = [2, 0, 1, 0] @ replicate 8 0 @ [5, 0] @ [1, 0, 0, 0, 97] @ replicate 4077 0,
      blen = 4096\<rparr>"

definition ex_full_leaf :: BNode where
  "ex_full_leaf =
     \<lparr>arr = [2, 0, 1, 0] @ replicate 8 0 @ [240, 15] @ [1, 0, 235, 15, 122]
            @ replicate 4075 0 @ replicate 2 0,
      blen = 4096\<rparr>"

text \<open>
  A tree over a fixed store: page 7 is the small leaf, page 9 the full one, every
  other ID has no page. The world is the list of the nodes \<open>ex_treeDelete\<close> was
  called with, a stand-in for \<^verbatim>\<open>treeDelete\<close> that records its argument and reports
  the key as not found.
\<close>

definition ex_tree :: "BNode list BTree" where
  "ex_tree =
     \<lparr>root = 3,
      get = (\<lambda>w p. if p = 7 then ex_small_leaf else if p = 9 then ex_full_leaf else BNode_empty),
      new = (\<lambda>w node. (11, w)),
      del = (\<lambda>w p. w)\<rparr>"

definition ex_treeDelete ::
  "BNode list BTree \<Rightarrow> BNode list \<Rightarrow> BNode \<Rightarrow> byte list \<Rightarrow> fault + BNode \<times> BNode list" where
  "ex_treeDelete tr w node key = Inr (BNode_empty, w @ [node])"

text \<open>
  The calls of the commit protocol, recorded: the world is paired with the list of the
  calls made so far, each with the \<^verbatim>\<open>error\<close> it returned. \<open>logged_db_op\<close> wraps a
  \<^verbatim>\<open>writePages\<close> or an \<^verbatim>\<open>updateRoot\<close>, \<open>logged_Fsync\<close> a \<^verbatim>\<open>syscall.Fsync\<close>; the
  wrapped operation sees the world without the list, so it cannot touch the record.
\<close>

datatype 'e event = WrotePages "'e option" | Synced int "'e option" | UpdatedRoot "'e option"

definition logged_db_op ::
  "('e option \<Rightarrow> 'e event) \<Rightarrow>
   (('w \<times> 'e event list) KV \<Rightarrow> 'w \<Rightarrow> 'e option \<times> ('w \<times> 'e event list) KV \<times> 'w) \<Rightarrow>
   ('w \<times> 'e event list) KV \<Rightarrow> 'w \<times> 'e event list \<Rightarrow>
   'e option \<times> ('w \<times> 'e event list) KV \<times> ('w \<times> 'e event list)" where
  "logged_db_op ev f db wl =
     (case f db (fst wl) of (r, db1, w1) \<Rightarrow> (r, db1, (w1, snd wl @ [ev r])))"

definition logged_Fsync ::
  "(int \<Rightarrow> 'w \<Rightarrow> 'e option \<times> 'w) \<Rightarrow>
   int \<Rightarrow> 'w \<times> 'e event list \<Rightarrow> 'e option \<times> ('w \<times> 'e event list)" where
  "logged_Fsync f d wl =
     (case f d (fst wl) of (r, w1) \<Rightarrow> (r, (w1, snd wl @ [Synced d r])))"






section \<open>Facts about the codec\<close>

lemmas codec_defs =
  nodeAppendKV_def setPtr_def getPtr_def assert_def kvPos_def getOffset_def offsetPos_def
  setOffset_def PutUint16_from_def Uint16_from_def copy_from_def bytes_from_def nkeys_def
  btype_def Uint16_slice_def PutUint16_slice_def put16_def le16_def getKey_def getValue_def
  nbytes_def setHeader_def make_bytes_def BTREE_PAGE_SIZE_def BNODE_LEAF_def BNODE_NODE_def

lemma setOffset_slot0: "setOffset node 0 off = Inl AssertionFailure"
  by (simp add: setOffset_def offsetPos_def)

text \<open>Appending at slot 0 never returns: whatever came before, \<open>setOffset\<close> panics.\<close>

lemma nodeAppendKV_slot0: "nodeAppendKV nw 0 ptr key val \<noteq> Inr r"
  by (simp add: nodeAppendKV_def setOffset_slot0 split: sum.splits)

lemma nodeAppendRange_slot0:
  assumes "n \<noteq> 0"
  shows "nodeAppendRange nw old 0 srcOld n \<noteq> Inr r"
proof -
  from assms have "0 < n" by (simp add: word_neq_0_conv)
  then show ?thesis
    unfolding nodeAppendRange_def
    by (subst nodeAppendRange_loop.simps) (simp add: nodeAppendKV_slot0 split: sum.splits)
qed

lemma nodeSplit2_fill_fails: "nodeSplit2_fill left right old nleft \<noteq> Inr r"
proof
  assume ok: "nodeSplit2_fill left right old nleft = Inr r"
  then obtain nk where nk: "nkeys old = Inr nk"
    by (cases "nkeys old") (simp_all add: nodeSplit2_fill_def)
  from ok nk have lt: "nleft < nk"
    by (cases "nleft < nk") (simp_all add: nodeSplit2_fill_def assert_def)
  then have nz: "nk - nleft \<noteq> 0" by simp
  from ok nk lt show False
    by (simp add: nodeSplit2_fill_def assert_def Let_def nodeAppendRange_slot0 [OF nz]
        split: sum.splits)
qed

lemma nodeSplit2_fails: "nodeSplit2 left right old \<noteq> Some (Inr r)"
  by (simp add: nodeSplit2_def nodeSplit2_fill_fails split: sum.splits option.splits)

lemma ex_big_leaf_nbytes: "nbytes ex_big_leaf = Inr 4444"
  by (simp add: codec_defs ex_big_leaf_def ex_entry_def nth_append)

lemma ex_big_leaf_nkeys: "nkeys ex_big_leaf = Inr 4"
  by (simp add: codec_defs ex_big_leaf_def ex_entry_def nth_append)

lemma ex_big_leaf_shrink: "shrink_left ex_big_leaf 2 = Inr 2"
  by (subst shrink_left.simps)
    (simp add: left_bytes_def codec_defs ex_big_leaf_def ex_entry_def nth_append)

lemma ex_big_leaf_grow: "grow_left ex_big_leaf 2 = Some (Inr 2)"
  by (subst grow_left.simps)
    (simp add: right_bytes_def left_bytes_def codec_defs ex_big_leaf_def ex_entry_def nth_append)

lemma ex_big_leaf_fill:
  "nodeSplit2_fill (make_bytes (2 * BTREE_PAGE_SIZE)) (make_bytes BTREE_PAGE_SIZE) ex_big_leaf 2
     = Inl AssertionFailure"
  unfolding nodeSplit2_fill_def nodeAppendRange_def
  by (subst nodeAppendRange_loop.simps)
    (simp add: codec_defs ex_big_leaf_def ex_entry_def nth_append)

lemma ex_big_leaf_split: "nodeSplit3 ex_big_leaf = Some (Inl AssertionFailure)"
  by (simp add: nodeSplit3_def nodeSplit2_def ex_big_leaf_nbytes ex_big_leaf_nkeys
      ex_big_leaf_shrink ex_big_leaf_grow ex_big_leaf_fill assert_def)

section \<open>The claims\<close>

text \<open>
  C1. The claim: appending an entry with key \<open>k\<close> and value \<open>v\<close> at slot \<open>i\<close> (also
  \<open>i = 0\<close>) sets the offset after the entry, \<open>offsets[i+1]\<close>, to
  \<open>offsets[i] + 4 + |k| + |v|\<close>, and leaves \<open>offsets[i]\<close> alone.
  The code does otherwise, on a fresh page with the header of a two-slot leaf: at
  slot 0 \<open>nodeAppendKV\<close> panics on the assertion of \<open>offsetPos\<close>; at slot 1, with the
  key \<open>a\<close> and the value \<open>bc\<close>, it returns with \<open>offsets[1] = 7\<close> (the slot's own
  offset overwritten) and \<open>offsets[2] = 0\<close> (the next offset untouched).
\<close>

theorem C1_nodeAppendKV_sets_own_offset:
  "\<exists>page. setHeader (make_bytes BTREE_PAGE_SIZE) BNODE_LEAF 2 = Inr page
      \<and> getOffset page 1 = Inr 0
      \<and> nodeAppendKV page 0 0 [] [] = Inl AssertionFailure
      \<and> (\<exists>n. nodeAppendKV page 1 0 [97] [98, 99] = Inr n
             \<and> getOffset n 1 = Inr 7 \<and> getOffset n 2 = Inr 0)"
  by (simp add: codec_defs nth_append)

text \<open>
  C2. The claim: after appending \<open>(k, v)\<close> at slot \<open>i\<close>, \<open>getKey(i) = k\<close> and
  \<open>getValue(i) = v\<close>. On a fresh two-slot leaf the code appends the key \<open>a\<close> and the
  value \<open>bc\<close> at slot 1 and then reads back the empty key and the empty value: the
  slot's offset was moved past the entry. The size field of the value, read where
  the entry was written (byte 26 of the page), holds the key's length 1, not 2.
\<close>

theorem C2_append_then_read_differs:
  "\<exists>page n. setHeader (make_bytes BTREE_PAGE_SIZE) BNODE_LEAF 2 = Inr page
      \<and> nodeAppendKV page 1 0 [97] [98, 99] = Inr n
      \<and> getKey n 1 = Inr [] \<and> getValue n 1 = Inr []
      \<and> Uint16_from n 26 = Inr 1"
  by (simp add: codec_defs nth_append)

text \<open>
  C3. The claim: a node whose encoded size exceeds the page size is split by
  \<open>nodeSplit3\<close> into 2 or 3 nodes, each within the page size, whose keys in order are
  the original keys. In the code \<open>nodeSplit3\<close> never returns for such a node: every
  path goes through \<open>nodeSplit2\<close>, which copies at least one entry to slot 0 of a
  new node, where \<open>nodeAppendKV\<close> panics. So the call panics or does not end.
\<close>

theorem C3_nodeSplit3_never_splits:
  assumes "nbytes old = Inr nb" and "4096 < nb"
  shows "nodeSplit3 old \<noteq> Some (Inr r)"
  using assms
  by (auto simp add: nodeSplit3_def nodeSplit2_fails split: sum.splits option.splits)

text \<open>The leaf of 4444 bytes: the split panics on the assertion.\<close>

theorem C3_nodeSplit3_never_splits_witness:
  "nbytes ex_big_leaf = Inr 4444 \<and> (4096 :: u16) < 4444
     \<and> nodeSplit3 ex_big_leaf = Some (Inl AssertionFailure)
     \<and> (\<forall>r. nodeSplit3 ex_big_leaf \<noteq> Some (Inr r))"
proof -
  have big: "(4096 :: u16) < 4444" by simp
  have "\<forall>r. nodeSplit3 ex_big_leaf \<noteq> Some (Inr r)"
    using C3_nodeSplit3_never_splits [OF ex_big_leaf_nbytes big] by blast
  with big show ?thesis
    by (simp add: ex_big_leaf_nbytes ex_big_leaf_split)
qed


text \<open>
  \<open>Insert\<close> on an empty tree panics at its first append, and \<open>Insert\<close> on any other
  tree, once it gets as far as the new root, returns \<^verbatim>\<open>nil\<close>.
\<close>

lemma Insert_empty_fails: "Insert_empty tr w key val = Inl AssertionFailure"
  by (simp add: Insert_empty_def codec_defs)

lemma Insert_root_nil: "Insert_root tr w nsplit split \<noteq> Inr (Some err, tr', w')"
  by (simp add: Insert_root_def Let_def split: sum.splits prod.splits)

text \<open>
  C4. \<open>Insert\<close> returns the size-limit error exactly when the key is longer than 999
  bytes and the value longer than 2999 bytes, both; the tree (its root) and the
  world (the page store: no page allocated) are then as they were. The size check
  lets a pair through exactly when one of the two lengths is within its maximum.
\<close>

theorem C4_Insert_size_limit:
  "(Insert tr w key val = Some (Inr (Some KeyOrValueTooLarge, tr', w'))
      \<longleftrightarrow> 999 < length key \<and> 2999 < length val \<and> tr' = tr \<and> w' = w)
   \<and> (checkLimit key val = None \<longleftrightarrow> length key \<le> 999 \<or> length val \<le> 2999)"
  by (auto simp add: Insert_def checkLimit_def BTREE_MAX_KEY_SIZE_def BTREE_MAX_VAL_SIZE_def
        Insert_empty_fails Insert_root_nil split: option.splits sum.splits prod.splits)

text \<open>
  C5. The claim: with no eligible left sibling, the right sibling is merged exactly
  when \<open>sibling.nbytes() + updated.nbytes() - HEADER \<le> PAGE_SIZE\<close>. The code adds the
  sibling's type tag instead of its size. For the parent \<open>ex_parent\<close>, \<open>idx = 0\<close>, the
  updated child of 19 bytes and the right sibling (page 9) of 4094 bytes, the sum of
  the claim is \<open>4094 + 19 - 4 = 4109 > 4096\<close>, so no merge; the code returns \<open>+1\<close>,
  merge right.
\<close>

theorem C5_shouldMerge_right_uses_btype:
  "nbytes ex_small_leaf = Inr 19 \<and> nbytes ex_full_leaf = Inr 4094
   \<and> \<not> (4094 + 19 - HEADER \<le> 4096)
   \<and> getPtr ex_parent 1 = Inr 9 \<and> get ex_tree w 9 = ex_full_leaf
   \<and> shouldMerge ex_tree w ex_parent 0 ex_small_leaf = Inr (1, ex_full_leaf)"
  by (simp add: shouldMerge_def shouldMerge_right_def codec_defs ex_small_leaf_def
      ex_full_leaf_def ex_parent_def ex_tree_def HEADER_def nth_append)

text \<open>
  C6. The claim: \<open>nodeDelete\<close> hands to the recursive delete the child page stored in
  pointer slot \<open>idx\<close>, the page it frees afterwards. The code fetches
  \<^verbatim>\<open>tree.get(uint64(idx))\<close>. For \<open>ex_parent\<close> and \<open>idx = 1\<close> the stored pointer is 9,
  and \<^verbatim>\<open>treeDelete\<close> (here \<open>ex_treeDelete\<close>, which records the node it is given) is
  called with page 1, which is not page 9.
\<close>

theorem C6_nodeDelete_fetches_by_index:
  "getPtr ex_parent 1 = Inr 9
   \<and> nodeDelete ex_treeDelete nodeMerge nodeReplace2Kid ex_tree [] ex_parent 1 key
       = Inr (BNode_empty, [get ex_tree [] 1])
   \<and> get ex_tree [] 1 \<noteq> get ex_tree [] 9"
  by (simp add: nodeDelete_def ex_treeDelete_def codec_defs ex_parent_def ex_tree_def
      BNode_empty_def ex_full_leaf_def nth_append)

text \<open>
  C7. The claim: \<open>Insert\<close> on an empty tree (root 0) builds a leaf with the empty
  sentinel at slot 0 and the pair at slot 1, allocates it and sets the root. In the
  code every such call that passes the size check panics: the first
  \<^verbatim>\<open>nodeAppendKV(root, 0, 0, nil, nil)\<close> fails the assertion of \<open>offsetPos\<close>, before
  any page is allocated.
\<close>

theorem C7_Insert_empty_tree_panics:
  assumes "root tr = 0" and "checkLimit key val = None"
  shows "Insert tr w key val = Some (Inl AssertionFailure)"
  using assms by (simp add: Insert_def Insert_empty_fails)

theorem C7_Insert_empty_tree_panics_witness:
  "root (ex_tree\<lparr>root := 0\<rparr>) = 0 \<and> checkLimit [107] [118] = None
   \<and> Insert (ex_tree\<lparr>root := 0\<rparr>) [] [107] [118] = Some (Inl AssertionFailure)"
proof -
  have r: "root (ex_tree\<lparr>root := 0\<rparr>) = 0" by simp
  have c: "checkLimit [107] [118] = None"
    by (simp add: checkLimit_def BTREE_MAX_KEY_SIZE_def)
  from C7_Insert_empty_tree_panics [OF r c] r c show ?thesis by simp
qed


text \<open>
  C8. The order of the commit protocol. Whatever \<^verbatim>\<open>writePages\<close>, \<^verbatim>\<open>Fsync\<close> and
  \<^verbatim>\<open>updateRoot\<close> do, the calls \<open>updateFile\<close> makes are one of four sequences: the page
  writes alone, failed; the page writes and a failed fsync; the page writes, an
  fsync, both succeeded, and a failed root update; or all three succeeded and a
  second fsync. In each the error returned is the one of the last call. So the root
  update is called only after the page writes and the first fsync have succeeded,
  the second fsync only after the root update has, and a failure of the page writes
  or of the first fsync is returned without a call of \<^verbatim>\<open>updateRoot\<close>.
\<close>

theorem C8_updateFile_call_order:
  "\<exists>r db1 w1 calls d1 d2.
     updateFile (logged_db_op WrotePages writePages) (logged_Fsync Fsync)
        (logged_db_op UpdatedRoot updateRoot) db (w, []) = (r, db1, (w1, calls))
     \<and> (calls = [WrotePages r] \<and> r \<noteq> None
        \<or> calls = [WrotePages None, Synced d1 r] \<and> r \<noteq> None
        \<or> calls = [WrotePages None, Synced d1 None, UpdatedRoot r] \<and> r \<noteq> None
        \<or> calls = [WrotePages None, Synced d1 None, UpdatedRoot None, Synced d2 r])"
proof (cases "writePages db w")
  case wp: (fields r1 db1 w1)
  show ?thesis
  proof (cases r1)
    case (Some e)
    with wp show ?thesis
      by (simp add: updateFile_def logged_db_op_def)
  next
    case None
    note r1 = this
    show ?thesis
    proof (cases "Fsync (fd db1) w1")
      case fs: (Pair r2 w2)
      show ?thesis
      proof (cases r2)
        case (Some e)
        with wp r1 fs show ?thesis
          by (simp add: updateFile_def logged_db_op_def logged_Fsync_def)
      next
        case None
        note r2 = this
        show ?thesis
        proof (cases "updateRoot db1 w2")
          case ur: (fields r3 db2 w3)
          show ?thesis
          proof (cases r3)
            case (Some e)
            with wp r1 fs r2 ur show ?thesis
              by (simp add: updateFile_def logged_db_op_def logged_Fsync_def)
          next
            case None
            with wp r1 fs r2 ur show ?thesis
              by (cases "Fsync (fd db2) w3")
                (simp add: updateFile_def logged_db_op_def logged_Fsync_def)
          qed
        qed
      qed
    qed
  qed
qed

text \<open>
  C9. The claim: a child pointer slot holds a full 64-bit page ID, so that storing
  \<open>p\<close> and reading it back gives \<open>p\<close>. \<open>setPtr\<close> and \<open>getPtr\<close> write and read two bytes
  of the eight, and \<open>nodeReplaceKidN\<close> stores \<^verbatim>\<open>uint16(tree.new(node))\<close>. For the page
  ID 65536 on a fresh one-slot internal node, the ID as it is stored is 0, and
  reading slot 0 gives 0, which is not 65536.
\<close>

theorem C9_child_pointer_16_bits:
  "\<exists>page n. setHeader (make_bytes BTREE_PAGE_SIZE) BNODE_NODE 1 = Inr page
      \<and> (ucast (65536 :: u64) :: u16) = 0
      \<and> setPtr page 0 (ucast (65536 :: u64)) = Inr n
      \<and> getPtr n 0 = Inr 0
      \<and> (ucast (0 :: u16) :: u64) \<noteq> 65536"
  by (simp add: codec_defs)




end
